theory Spec2Isabelle
  imports Complex_Main "HOL-Library.Sublist"
begin

section \<open>Change Notifier: \<^verbatim>\<open>FileChangeHandler\<close>\<close>

text \<open>
  A filesystem event as \<^verbatim>\<open>on_modified\<close> reads it: the kind of the event, whether it
  concerns a directory, and the path. The observer hands every event to the handler's
  \<^verbatim>\<open>dispatch\<close>, which calls the method named after the kind of the event.
\<close>

datatype event_type = Created | Deleted | Modified | Moved | Closed | Opened

record event =
  event_type :: event_type
  is_directory :: bool
  src_path :: string

text \<open>\<^verbatim>\<open>s.endswith(suf)\<close> and \<^verbatim>\<open>s.endswith((suf1, suf2, ...))\<close>.\<close>

definition endswith :: "string \<Rightarrow> string \<Rightarrow> bool" where
  "endswith s suf = (length suf \<le> length s \<and> drop (length s - length suf) s = suf)"

fun endswith_any :: "string \<Rightarrow> string list \<Rightarrow> bool" where
  "endswith_any s [] = False"
| "endswith_any s (suf # sufs) = (endswith s suf \<or> endswith_any s sufs)"

definition watched_suffixes :: "string list" where
  "watched_suffixes = [''.html'', ''.css'', ''.js'']"

text \<open>
  The handler object: \<^verbatim>\<open>self.last_modified\<close>, a dict from path to the clock reading
  stored with it. \<^verbatim>\<open>__init__\<close> starts it empty. The callback is an effect: a method
  returns, next to the new handler, the argument the callback was called with, if it
  was called. The reading of \<^verbatim>\<open>time.time()\<close> is a parameter \<open>now\<close>, a number of
  seconds.
\<close>

record FileChangeHandler =
  last_modified :: "string \<rightharpoonup> real"

definition FileChangeHandler_init :: FileChangeHandler where
  "FileChangeHandler_init = \<lparr>last_modified = Map.empty\<rparr>"

definition on_modified ::
  "real \<Rightarrow> event \<Rightarrow> FileChangeHandler \<Rightarrow> FileChangeHandler \<times> string option" where
  "on_modified now ev h =
     (if is_directory ev then (h, None)
      else if endswith_any (src_path ev) watched_suffixes then
        (case last_modified h (src_path ev) of
           None \<Rightarrow>
             (h\<lparr>last_modified := (last_modified h)(src_path ev \<mapsto> now)\<rparr>, Some (src_path ev))
         | Some t \<Rightarrow>
             if now - t > 1
             then (h\<lparr>last_modified := (last_modified h)(src_path ev \<mapsto> now)\<rparr>,
                   Some (src_path ev))
             else (h, None))
      else (h, None))"

text \<open>
  \<^verbatim>\<open>FileChangeHandler\<close> overrides \<^verbatim>\<open>on_modified\<close> only: the methods for the other
  kinds of event are the inherited ones, which do nothing.
\<close>

definition dispatch ::
  "real \<Rightarrow> event \<Rightarrow> FileChangeHandler \<Rightarrow> FileChangeHandler \<times> string option" where
  "dispatch now ev h =
     (case event_type ev of
        Modified \<Rightarrow> on_modified now ev h
      | _ \<Rightarrow> (h, None))"

text \<open>
  A run of the handler over the events the observer delivers, each with the clock
  reading of its call: the callback's argument for each event, \<open>None\<close> where the
  callback was not called.
\<close>

fun callbacks :: "FileChangeHandler \<Rightarrow> (real \<times> event) list \<Rightarrow> string option list" where
  "callbacks h [] = []"
| "callbacks h ((now, ev) # evs) =
     snd (dispatch now ev h) # callbacks (fst (dispatch now ev h)) evs"

definition modified_file :: "string \<Rightarrow> event" where
  "modified_file p = \<lparr>event_type = Modified, is_directory = False, src_path = p\<rparr>"

text \<open>A run of events none of which the handler is to react to.\<close>

definition unwatched_run :: "(real \<times> event) list" where
  "unwatched_run =
     [(10, modified_file ''notes.txt''), (10.2, modified_file ''notes.txt''),
      (13, \<lparr>event_type = Created, is_directory = False, src_path = ''new.html''\<rparr>),
      (14, \<lparr>event_type = Moved, is_directory = False, src_path = ''index.html''\<rparr>),
      (15, \<lparr>event_type = Deleted, is_directory = False, src_path = ''app.js''\<rparr>)]"

section \<open>Request Handler: \<^verbatim>\<open>CORSHTTPRequestHandler\<close>\<close>












section \<open>Text\<close>

text \<open>
  Printed text is the list of the bytes of its UTF-8 encoding. \<^verbatim>\<open>str\<close> of an integer
  and \<^verbatim>\<open>sep.join\<close> are the two string operations the program uses beyond
  concatenation.
\<close>

fun str_nat :: "nat \<Rightarrow> string" where
  "str_nat n = (if n < 10 then [''0123456789'' ! n]
                else str_nat (n div 10) @ [''0123456789'' ! (n mod 10)])"

declare str_nat.simps [simp del]

definition str_int :: "int \<Rightarrow> string" where
  "str_int i = (if i < 0 then ''-'' @ str_nat (nat (- i)) else str_nat (nat i))"

fun join :: "string \<Rightarrow> string list \<Rightarrow> string" where
  "join sep [] = []"
| "join sep [x] = x"
| "join sep (x # y # ys) = x @ sep @ join sep (y # ys)"

definition nl :: string where "nl = [CHR 0x0A]"
definition rule60 :: string where "rule60 = replicate 60 (CHR ''='')"
definition cross_mark :: string where "cross_mark = [CHR 0xE2, CHR 0x9D, CHR 0x8C]"
definition warning_sign :: string where
  "warning_sign = [CHR 0xE2, CHR 0x9A, CHR 0xA0, CHR 0xEF, CHR 0xB8, CHR 0x8F]"
definition eyes :: string where "eyes = [CHR 0xF0, CHR 0x9F, CHR 0x91, CHR 0x80]"
definition rocket :: string where "rocket = [CHR 0xF0, CHR 0x9F, CHR 0x9A, CHR 0x80]"
definition file_folder :: string where "file_folder = [CHR 0xF0, CHR 0x9F, CHR 0x93, CHR 0x81]"
definition globe_meridians :: string where
  "globe_meridians = [CHR 0xF0, CHR 0x9F, CHR 0x8C, CHR 0x90]"
definition globe_europe :: string where "globe_europe = [CHR 0xF0, CHR 0x9F, CHR 0x8C, CHR 0x8D]"
definition memo :: string where "memo = [CHR 0xF0, CHR 0x9F, CHR 0x93, CHR 0x9D]"
definition light_bulb :: string where "light_bulb = [CHR 0xF0, CHR 0x9F, CHR 0x92, CHR 0xA1]"
definition bullet :: string where "bullet = [CHR 0xE2, CHR 0x80, CHR 0xA2]"
definition link_symbol :: string where "link_symbol = [CHR 0xF0, CHR 0x9F, CHR 0x94, CHR 0x97]"
definition check_mark :: string where "check_mark = [CHR 0xE2, CHR 0x9C, CHR 0x85]"
definition stop_sign :: string where "stop_sign = [CHR 0xF0, CHR 0x9F, CHR 0x9B, CHR 0x91]"
definition arrows :: string where "arrows = [CHR 0xF0, CHR 0x9F, CHR 0x94, CHR 0x84]"

section \<open>Network Address Resolver: \<^verbatim>\<open>get_network_ip\<close>\<close>

text \<open>
  What the operating system answers to the three socket operations of one call: creating
  the datagram socket, connecting it, reading its local address. An operation fails with
  an \<^verbatim>\<open>OSError\<close>, given by its number and its text; \<^verbatim>\<open>except Exception\<close> catches it.
\<close>

type_synonym oserror = "int \<times> string"

record probe =
  socket_new :: "oserror option"
  socket_connect :: "string \<Rightarrow> nat \<Rightarrow> oserror option"
  socket_getsockname :: "oserror + (string \<times> nat)"

definition get_network_ip :: "probe \<Rightarrow> string" where
  "get_network_ip pr =
     (case socket_new pr of
        Some err \<Rightarrow> ''127.0.0.1''
      | None \<Rightarrow>
          (case socket_connect pr ''8.8.8.8'' 80 of
             Some err \<Rightarrow> ''127.0.0.1''
           | None \<Rightarrow>
               (case socket_getsockname pr of
                  Inl err \<Rightarrow> ''127.0.0.1''
                | Inr (addr, prt) \<Rightarrow> addr)))"

section \<open>Server Orchestrator: \<^verbatim>\<open>main\<close>\<close>

text \<open>
  The exceptions the program names in its \<^verbatim>\<open>except\<close> clauses. \<^verbatim>\<open>ImportError\<close>,
  \<^verbatim>\<open>OSError\<close> and every other exception are instances of \<^verbatim>\<open>Exception\<close>; the
  interrupt from the keyboard is not.
\<close>

datatype exn = ImportError string | OSError int string | OtherException string

fun str_exn :: "exn \<Rightarrow> string" where
  "str_exn (ImportError m) = m"
| "str_exn (OSError n m) = ''[Errno '' @ str_int n @ ''] '' @ m"
| "str_exn (OtherException m) = m"

datatype raised = KeyboardInterrupt | Raised exn

text \<open>The parsed command line, with the defaults of the parser.\<close>

record args =
  port :: int
  no_browser :: bool
  no_watch :: bool
  host :: string

definition default_args :: args where
  "default_args = \<lparr>port = 8000, no_browser = False, no_watch = False, host = ''127.0.0.1''\<rparr>"

text \<open>
  The surroundings of one run: whether the \<^verbatim>\<open>watchdog\<close> package can be imported, the
  directory of the script, the absolute name of the working directory once the program
  has moved there, which files exist in which directory, how the observer's
  \<^verbatim>\<open>schedule\<close> and \<^verbatim>\<open>start\<close> end (\<open>None\<close>: without an exception), how the
  construction of the TCP server for a host and port ends, the socket operations of the
  successive calls of \<^verbatim>\<open>get_network_ip\<close>, and how \<^verbatim>\<open>serve_forever\<close> ends (\<open>None\<close>: it
  keeps serving).
\<close>

record env =
  watchdog_installed :: bool
  script_dir :: string
  getcwd :: string
  path_exists :: "string \<Rightarrow> string \<Rightarrow> bool"
  observer_schedule :: "exn option"
  observer_start :: "exn option"
  server_bind :: "string \<Rightarrow> int \<Rightarrow> exn option"
  socket_probes :: "nat \<Rightarrow> probe"
  serve_forever :: "raised option"

text \<open>What a run does, in order, as far as it can be seen from outside.\<close>

datatype action =
    Print string
  | Chdir string
  | ObserverSchedule string
  | ObserverStart
  | ObserverStop
  | ObserverJoin
  | Bind string int
  | BrowserTimer string
  | ServeForever
  | ServerClose
  | Traceback exn

definition basename :: "string \<Rightarrow> string" where
  "basename p = rev (takeWhile (\<lambda>c. c \<noteq> CHR ''/'') (rev p))"

definition on_file_changed :: "string \<Rightarrow> action list" where
  "on_file_changed file_path =
     [Print (file_folder @ '' File changed: '' @ basename file_path),
      Print (arrows @ '' Refresh your browser to see changes'')]"

text \<open>
  \<^verbatim>\<open>start_file_watcher\<close>: what it does, and the exception it ends with, if any.
\<close>

definition start_file_watcher :: "env \<Rightarrow> string \<Rightarrow> action list \<times> exn option" where
  "start_file_watcher e directory =
     (case observer_schedule e of
        Some x \<Rightarrow> ([], Some x)
      | None \<Rightarrow>
          (case observer_start e of
             Some x \<Rightarrow> ([ObserverSchedule directory], Some x)
           | None \<Rightarrow> ([ObserverSchedule directory, ObserverStart], None)))"

text \<open>\<^verbatim>\<open>check_dependencies\<close>, in the working directory \<open>cwd\<close>.\<close>

definition check_dependencies :: "env \<Rightarrow> string \<Rightarrow> action list \<times> bool" where
  "check_dependencies e cwd =
     (let missing_files = filter (\<lambda>file. \<not> path_exists e cwd file) [''index.html'']
      in if missing_files \<noteq> []
         then ([Print (cross_mark @ '' Missing required files: '' @ join '', '' missing_files)],
               False)
         else ([], True))"

text \<open>
  The body of the \<^verbatim>\<open>try\<close> statement of \<^verbatim>\<open>main\<close>: what it does, and what it is left
  by (\<open>None\<close>: it is not left, the server keeps serving). The attempt to bind is recorded
  whether it succeeds or not.
\<close>

definition serve :: "env \<Rightarrow> args \<Rightarrow> action list \<times> raised option" where
  "serve e a =
     (case server_bind e (host a) (port a) of
        Some x \<Rightarrow> ([Bind (host a) (port a)], Some (Raised x))
      | None \<Rightarrow>
          (let host_display =
                 (if host a \<noteq> ''0.0.0.0'' then host a else get_network_ip (socket_probes e 0));
               url = ''http://127.0.0.1:'' @ str_int (port a);
               shown =
                 [Bind (host a) (port a),
                  Print (nl @ rule60),
                  Print (rocket @ '' Financial Atlas Development Server''),
                  Print rule60,
                  Print (file_folder @ '' Serving directory: '' @ getcwd e),
                  Print (globe_meridians @ '' Local URL:        http://127.0.0.1:''
                         @ str_int (port a))]
                 @ (if host a = ''0.0.0.0''
                    then [Print (globe_europe @ '' Network URL:      http://''
                            @ get_network_ip (socket_probes e 1) @ '':'' @ str_int (port a))]
                    else [])
                 @ [Print (memo @ '' Main file:        index.html''),
                    Print rule60,
                    Print (light_bulb @ '' Tips:''),
                    Print (''   '' @ bullet @ '' Press Ctrl+C to stop the server''),
                    Print (''   '' @ bullet @ '' Refresh browser to see changes'')]
                 @ (if \<not> no_watch a
                    then [Print (''   '' @ bullet @ '' File changes are automatically detected'')]
                    else [])
                 @ [Print (''   '' @ bullet @ '' Check browser console for any errors''),
                    Print rule60]
                 @ (if \<not> no_browser a
                    then [Print (link_symbol @ '' Opening browser: '' @ url), BrowserTimer url]
                    else [])
                 @ [Print (nl @ check_mark @ '' Server running on http://'' @ host_display
                           @ '':'' @ str_int (port a)),
                    Print (''   Press Ctrl+C to stop'' @ nl),
                    ServeForever]
           in case serve_forever e of
                None \<Rightarrow> (shown, None)
              | Some r \<Rightarrow> (shown @ [ServerClose], Some r)))"

text \<open>
  The \<^verbatim>\<open>except\<close> clauses, in the order of the source: what is printed and the exit code
  (0: \<^verbatim>\<open>main\<close> returns, the other clauses call \<^verbatim>\<open>sys.exit(1)\<close>).
\<close>

fun handle_raised :: "args \<Rightarrow> raised \<Rightarrow> action list \<times> int" where
  "handle_raised a KeyboardInterrupt =
     ([Print (nl @ nl @ stop_sign @ '' Server stopped by user'')], 0)"
| "handle_raised a (Raised (OSError errno strerror)) =
     ((if errno = 48
       then [Print (cross_mark @ '' Port '' @ str_int (port a)
                    @ '' is already in use. Try a different port:''),
             Print (''   python serve.py -p '' @ str_int (port a + 1))]
       else [Print (cross_mark @ '' Server error: '' @ str_exn (OSError errno strerror))]),
      1)"
| "handle_raised a (Raised x) =
     ([Print (cross_mark @ '' Unexpected error: '' @ str_exn x)], 1)"

text \<open>
  \<^verbatim>\<open>main\<close>: what the run does and the exit code of the process, \<open>None\<close> while the server
  keeps serving.
\<close>

definition main :: "env \<Rightarrow> args \<Rightarrow> action list \<times> int option" where
  "main e a =
     (let moved = [Chdir (script_dir e)];
          (checked, ok) = check_dependencies e (script_dir e)
      in if \<not> ok then (moved @ checked, Some 1)
         else
           (let (watching, observer) =
                  (if \<not> no_watch a
                   then (case start_file_watcher e ''.'' of
                           (done, None) \<Rightarrow>
                             (done @ [Print (eyes
                                 @ '' File watcher started - changes will be detected'')], True)
                         | (done, Some (ImportError m)) \<Rightarrow>
                             (done @ [Print (warning_sign
                                 @ ''  File watching not available (install watchdog: pip install watchdog)'')],
                              False)
                         | (done, Some x) \<Rightarrow>
                             (done @ [Print (warning_sign
                                 @ ''  Could not start file watcher: '' @ str_exn x)], False))
                   else ([], False));
                finally_clause = (if observer then [ObserverStop, ObserverJoin] else []);
                (served, left) = serve e a
            in case left of
                 None \<Rightarrow> (moved @ checked @ watching @ served, None)
               | Some r \<Rightarrow>
                   (let (handled, code) = handle_raised a r
                    in (moved @ checked @ watching @ served @ handled @ finally_clause, Some code))))"

text \<open>
  Running the script: the imports at the top of the module come first. Without the
  \<^verbatim>\<open>watchdog\<close> package the import on line 16 raises, nothing catches it, and the
  interpreter prints the traceback and exits with code 1.
\<close>

definition run_script :: "env \<Rightarrow> args \<Rightarrow> action list \<times> int option" where
  "run_script e a =
     (if \<not> watchdog_installed e
      then ([Traceback (ImportError (''No module named '' @ [CHR 0x27] @ ''watchdog''
                                     @ [CHR 0x27]))], Some 1)
      else main e a)"

text \<open>
  The number the operating system gives to "address already in use"
  (\<^verbatim>\<open>errno.EADDRINUSE\<close>): 98 on Linux, 48 on macOS and the BSDs, 10048 on Windows.
\<close>

datatype platform = Linux | Darwin | Windows

fun EADDRINUSE :: "platform \<Rightarrow> int" where
  "EADDRINUSE Linux = 98"
| "EADDRINUSE Darwin = 48"
| "EADDRINUSE Windows = 10048"

text \<open>
  Surroundings in which everything works, on the given platform: the package is there,
  \<^verbatim>\<open>index.html\<close> exists, the observer starts, the port is free, the machine has the
  address 192.168.1.20, and the server runs until the given end.
\<close>

definition good_probe :: probe where
  "good_probe = \<lparr>socket_new = None, socket_connect = (\<lambda>h p. None),
                 socket_getsockname = Inr (''192.168.1.20'', 54321)\<rparr>"

definition good_env :: env where
  "good_env =
     \<lparr>watchdog_installed = True, script_dir = ''/srv/atlas'', getcwd = ''/srv/atlas'',
      path_exists = (\<lambda>d f. d = ''/srv/atlas'' \<and> f = ''index.html''),
      observer_schedule = None, observer_start = None,
      server_bind = (\<lambda>h p. None), socket_probes = (\<lambda>n. good_probe),
      serve_forever = Some KeyboardInterrupt\<rparr>"

text \<open>The same, with the requested port already bound by another process.\<close>

definition port_taken_env :: "platform \<Rightarrow> env" where
  "port_taken_env pf =
     good_env\<lparr>server_bind := (\<lambda>h p. Some (OSError (EADDRINUSE pf) ''Address already in use''))\<rparr>"

section \<open>Properties of the Change Notifier\<close>

lemma endswith_suffix: "endswith s suf \<longleftrightarrow> suffix suf s"
proof
  assume "endswith s suf"
  then have "s = take (length s - length suf) s @ suf"
    by (metis append_take_drop_id endswith_def)
  then show "suffix suf s" by (metis suffixI)
next
  assume "suffix suf s"
  then obtain zs where "s = zs @ suf" by (auto simp: suffix_def)
  then show "endswith s suf" by (simp add: endswith_def)
qed

lemma dispatch_Some_table:
  "dispatch now ev h = (h', Some p) \<Longrightarrow> last_modified h' = (last_modified h)(p \<mapsto> now)"
  by (auto simp: dispatch_def on_modified_def split: event_type.splits if_splits option.splits)

lemma dispatch_Some_gap:
  "dispatch now ev h = (h', Some p) \<Longrightarrow> last_modified h p = Some t \<Longrightarrow> now - t > 1"
  by (auto simp: dispatch_def on_modified_def split: event_type.splits if_splits option.splits)

lemma dispatch_None_same:
  "dispatch now ev h = (h', None) \<Longrightarrow> h' = h"
  by (auto simp: dispatch_def on_modified_def split: event_type.splits if_splits option.splits)

text \<open>
  Once the table holds \<open>t0\<close> for a path, every later call of the callback for that path
  happens at a clock reading more than one second above \<open>t0\<close>.
\<close>

lemma callbacks_after_entry:
  "last_modified h p = Some t0 \<Longrightarrow> j < length evs \<Longrightarrow> callbacks h evs ! j = Some p
     \<Longrightarrow> fst (evs ! j) - t0 > 1"
proof (induction evs arbitrary: h t0 j)
  case Nil
  then show ?case by simp
next
  case (Cons x evs)
  obtain now ev where x: "x = (now, ev)" by (cases x)
  obtain h' r where d: "dispatch now ev h = (h', r)" by (cases "dispatch now ev h")
  show ?case
  proof (cases j)
    case 0
    with Cons.prems x d have "r = Some p" by simp
    with d Cons.prems(1) have "now - t0 > 1" by (auto dest: dispatch_Some_gap)
    with 0 x show ?thesis by simp
  next
    case (Suc k)
    with Cons.prems x d have k: "k < length evs" "callbacks h' evs ! k = Some p" by simp_all
    show ?thesis
    proof (cases r)
      case None
      with d have "h' = h" by (auto dest: dispatch_None_same)
      with Cons.IH[of h t0 k] Cons.prems(1) k Suc x show ?thesis by simp
    next
      case (Some q)
      with d have tab: "last_modified h' = (last_modified h)(q \<mapsto> now)"
        by (auto dest: dispatch_Some_table)
      show ?thesis
      proof (cases "q = p")
        case True
        with d Some Cons.prems(1) have gap: "now - t0 > 1" by (auto dest: dispatch_Some_gap)
        from tab True have "last_modified h' p = Some now" by simp
        from Cons.IH[OF this k] have "fst (evs ! k) - now > 1" .
        with gap Suc x show ?thesis by simp
      next
        case False
        with tab Cons.prems(1) have "last_modified h' p = Some t0" by simp
        from Cons.IH[OF this k] Suc x show ?thesis by simp
      qed
    qed
  qed
qed

text \<open>
  C1. In any run of the handler, from any table, two calls of the callback for the same
  path are more than one second apart on the clock (strictly): an event is delivered
  only if no earlier delivery for that path lies within the last second, so of two
  modifications of a path at most one second apart at most one is delivered.
\<close>

theorem debounce_deliveries_spaced:
  "i < j \<Longrightarrow> j < length evs \<Longrightarrow> callbacks h evs ! i = Some p \<Longrightarrow> callbacks h evs ! j = Some p
     \<Longrightarrow> fst (evs ! j) - fst (evs ! i) > 1"
proof (induction evs arbitrary: h i j)
  case Nil
  then show ?case by simp
next
  case (Cons x evs)
  obtain now ev where x: "x = (now, ev)" by (cases x)
  obtain h' r where d: "dispatch now ev h = (h', r)" by (cases "dispatch now ev h")
  from Cons.prems(1) obtain k where j: "j = Suc k" by (cases j) simp_all
  with Cons.prems x d have k: "k < length evs" "callbacks h' evs ! k = Some p" by simp_all
  show ?case
  proof (cases i)
    case 0
    with Cons.prems x d have "r = Some p" by simp
    with d have "last_modified h' p = Some now" by (auto dest: dispatch_Some_table)
    from callbacks_after_entry[OF this k] 0 j x show ?thesis by simp
  next
    case (Suc m)
    with Cons.prems x d j have "m < k" "callbacks h' evs ! m = Some p" by simp_all
    from Cons.IH[OF this(1) k(1) this(2) k(2)] Suc j show ?thesis by simp
  qed
qed

theorem debounce_deliveries_spaced_witness:
  "callbacks FileChangeHandler_init
        [(10, modified_file ''a.js''), (10.5, modified_file ''a.js''),
         (11.5, modified_file ''a.js'')]
      = [Some ''a.js'', None, Some ''a.js'']
   \<and> fst ([(10::real, modified_file ''a.js''), (10.5, modified_file ''a.js''),
           (11.5, modified_file ''a.js'')] ! 2)
       - fst ([(10::real, modified_file ''a.js''), (10.5, modified_file ''a.js''),
           (11.5, modified_file ''a.js'')] ! 0) > 1"
proof -
  have c: "callbacks FileChangeHandler_init
        [(10, modified_file ''a.js''), (10.5, modified_file ''a.js''),
         (11.5, modified_file ''a.js'')]
      = [Some ''a.js'', None, Some ''a.js'']"
    by (simp add: FileChangeHandler_init_def modified_file_def dispatch_def on_modified_def
        watched_suffixes_def endswith_def)
  from debounce_deliveries_spaced[of 0 2
      "[(10, modified_file ''a.js''), (10.5, modified_file ''a.js''),
        (11.5, modified_file ''a.js'')]" FileChangeHandler_init "''a.js''"] c
  show ?thesis by simp
qed

text \<open>
  The case the claim singles out: a path modified twice, the second time at most one
  second after the first on the clock, reaches the callback at most once, whatever the
  table held before.
\<close>

lemma modified_twice_within_window:
  "t2 - t1 \<le> 1 \<Longrightarrow>
     length (filter (\<lambda>r. r \<noteq> None)
       (callbacks h [(t1, modified_file p), (t2, modified_file p)])) \<le> 1"
  by (auto simp: dispatch_def on_modified_def modified_file_def split: option.splits)

text \<open>
  Whether an event is one the handler looks at: a modification, not of a directory, of a
  path with one of the watched suffixes. Whether the debounce test lets it through: the
  path has no entry, or its entry lies more than one second below the clock reading.
\<close>

lemma dispatch_watched_modification:
  "event_type ev = Modified \<Longrightarrow> \<not> is_directory ev
     \<Longrightarrow> endswith_any (src_path ev) watched_suffixes
     \<Longrightarrow> dispatch now ev h =
        (if (case last_modified h (src_path ev) of None \<Rightarrow> True | Some t \<Rightarrow> now - t > 1)
         then (h\<lparr>last_modified := (last_modified h)(src_path ev \<mapsto> now)\<rparr>, Some (src_path ev))
         else (h, None))"
  by (simp add: dispatch_def on_modified_def split: option.splits)

text \<open>
  C3, as stated, fails: a modification of \<^verbatim>\<open>a.js\<close> half a second after the entry
  stored for it leaves the table as it was.
\<close>

theorem table_kept_within_window:
  "endswith_any ''a.js'' watched_suffixes
   \<and> dispatch 10.5 (modified_file ''a.js'') \<lparr>last_modified = [''a.js'' \<mapsto> 10]\<rparr>
       = (\<lparr>last_modified = [''a.js'' \<mapsto> 10]\<rparr>, None)"
  by (simp add: modified_file_def dispatch_def on_modified_def watched_suffixes_def endswith_def)

text \<open>
  C3, amended. For a modification of a file with a watched suffix, the table is changed
  exactly when the callback is called, that is when the path has no entry or its entry
  lies more than one second below the clock reading: then the path's entry becomes the
  clock reading and no other entry changes. Otherwise the table stays as it is.
\<close>

theorem table_updated_on_delivery:
  "event_type ev = Modified \<Longrightarrow> \<not> is_directory ev
     \<Longrightarrow> endswith_any (src_path ev) watched_suffixes
     \<Longrightarrow> (let passes = (case last_modified h (src_path ev) of
                          None \<Rightarrow> True | Some t \<Rightarrow> now - t > 1)
          in last_modified (fst (dispatch now ev h)) =
               (if passes then (last_modified h)(src_path ev \<mapsto> now) else last_modified h)
             \<and> snd (dispatch now ev h) = (if passes then Some (src_path ev) else None))"
  by (simp add: dispatch_watched_modification Let_def)

theorem table_updated_on_delivery_witness:
  "last_modified (fst (dispatch 12 (modified_file ''a.js'') \<lparr>last_modified = [''a.js'' \<mapsto> 10]\<rparr>))
     = [''a.js'' \<mapsto> 12]
   \<and> snd (dispatch 12 (modified_file ''a.js'') \<lparr>last_modified = [''a.js'' \<mapsto> 10]\<rparr>)
     = Some ''a.js''"
  using table_updated_on_delivery[where ev = "modified_file ''a.js''"
      and h = "\<lparr>last_modified = [''a.js'' \<mapsto> 10]\<rparr>" and now = 12]
  by (simp add: modified_file_def watched_suffixes_def endswith_def)

text \<open>
  An event that is not a modification, or whose path has none of the watched suffixes,
  never reaches the callback and leaves the handler as it is.
\<close>

lemma dispatch_ignored:
  "event_type ev \<noteq> Modified \<or> \<not> endswith_any (src_path ev) watched_suffixes
     \<Longrightarrow> dispatch now ev h = (h, None)"
  by (auto simp: dispatch_def on_modified_def split: event_type.splits)

text \<open>
  C8. In a run in which every event is either not a modification (a creation, a
  deletion, a rename, ...) or a modification of a path that ends in none of
  \<^verbatim>\<open>.html\<close>, \<^verbatim>\<open>.css\<close>, \<^verbatim>\<open>.js\<close>, the callback is never called, however many
  events there are and whatever their timing.
\<close>

theorem unwatched_events_never_delivered:
  "(\<And>now ev. (now, ev) \<in> set evs \<Longrightarrow>
       event_type ev \<noteq> Modified \<or> \<not> endswith_any (src_path ev) watched_suffixes)
     \<Longrightarrow> callbacks h evs = replicate (length evs) None"
proof (induction evs arbitrary: h)
  case Nil
  then show ?case by simp
next
  case (Cons x evs)
  obtain now ev where x: "x = (now, ev)" by (cases x)
  from Cons.prems[of now ev] x
  have "event_type ev \<noteq> Modified \<or> \<not> endswith_any (src_path ev) watched_suffixes"
    by simp
  then have "dispatch now ev h = (h, None)"
    by (rule dispatch_ignored)
  moreover have "callbacks h evs = replicate (length evs) None"
  proof (rule Cons.IH)
    fix now' ev'
    assume "(now', ev') \<in> set evs"
    then have "(now', ev') \<in> set (x # evs)" by simp
    then show "event_type ev' \<noteq> Modified \<or> \<not> endswith_any (src_path ev') watched_suffixes"
      by (rule Cons.prems)
  qed
  ultimately show ?case using x by simp
qed

theorem unwatched_events_never_delivered_witness:
  "callbacks FileChangeHandler_init unwatched_run = [None, None, None, None, None]"
proof -
  have "callbacks FileChangeHandler_init unwatched_run
          = replicate (length unwatched_run) None"
  proof (rule unwatched_events_never_delivered)
    fix now ev
    assume "(now, ev) \<in> set unwatched_run"
    then show "event_type ev \<noteq> Modified \<or> \<not> endswith_any (src_path ev) watched_suffixes"
      by (auto simp: unwatched_run_def modified_file_def watched_suffixes_def endswith_def)
  qed
  then show ?thesis by (simp add: unwatched_run_def)
qed

section \<open>Properties of the Request Handler\<close>








section \<open>Properties of the Network Address Resolver\<close>

text \<open>
  C9. \<^verbatim>\<open>get_network_ip\<close> always returns a string: when any of the three socket
  operations fails, the loopback address; when none fails, the address read back from the
  socket.
\<close>

theorem get_network_ip_fallback:
  "(socket_new pr \<noteq> None \<or> socket_connect pr ''8.8.8.8'' 80 \<noteq> None
      \<or> (\<exists>err. socket_getsockname pr = Inl err) \<longrightarrow> get_network_ip pr = ''127.0.0.1'')
   \<and> (socket_new pr = None \<and> socket_connect pr ''8.8.8.8'' 80 = None
      \<and> socket_getsockname pr = Inr (addr, prt) \<longrightarrow> get_network_ip pr = addr)"
  by (auto simp: get_network_ip_def split: option.splits sum.splits)

theorem get_network_ip_fallback_witness:
  "get_network_ip (good_probe\<lparr>socket_connect := (\<lambda>h p. Some (101, ''Network is unreachable''))\<rparr>)
     = ''127.0.0.1''
   \<and> get_network_ip good_probe = ''192.168.1.20''"
  using get_network_ip_fallback[where
           pr = "good_probe\<lparr>socket_connect := (\<lambda>h p. Some (101, ''Network is unreachable''))\<rparr>"]
        get_network_ip_fallback[where pr = good_probe and addr = "''192.168.1.20''"
           and prt = 54321]
  by (simp add: good_probe_def)

section \<open>Properties of the Server Orchestrator\<close>

lemma check_dependencies_eq:
  "check_dependencies e cwd =
     (if path_exists e cwd ''index.html'' then ([], True)
      else ([Print (cross_mark @ '' Missing required files: index.html'')], False))"
  by (simp add: check_dependencies_def)

lemma main_missing_index:
  "\<not> path_exists e (script_dir e) ''index.html'' \<Longrightarrow>
     main e a = ([Chdir (script_dir e),
                  Print (cross_mark @ '' Missing required files: index.html'')], Some 1)"
  by (simp add: main_def check_dependencies_eq)

text \<open>
  C7. When \<^verbatim>\<open>index.html\<close> is not in the working directory (the directory of the script,
  where \<^verbatim>\<open>main\<close> moves before it looks), the run ends with exit code 1 and no
  attempt to bind has been made.
\<close>

theorem missing_index_exits_before_bind:
  "\<not> path_exists e (script_dir e) ''index.html'' \<Longrightarrow>
     snd (run_script e a) = Some 1 \<and> (\<forall>h p. Bind h p \<notin> set (fst (run_script e a)))"
  by (simp add: run_script_def main_missing_index)

theorem missing_index_exits_before_bind_witness:
  "run_script (good_env\<lparr>path_exists := (\<lambda>d f. False)\<rparr>) default_args
     = ([Chdir ''/srv/atlas'', Print (cross_mark @ '' Missing required files: index.html'')],
        Some 1)
   \<and> snd (run_script (good_env\<lparr>path_exists := (\<lambda>d f. False)\<rparr>) default_args) = Some 1
   \<and> Bind ''127.0.0.1'' 8000
       \<notin> set (fst (run_script (good_env\<lparr>path_exists := (\<lambda>d f. False)\<rparr>) default_args))"
  using missing_index_exits_before_bind[where e = "good_env\<lparr>path_exists := (\<lambda>d f. False)\<rparr>"
      and a = default_args]
  by (simp add: good_env_def run_script_def main_missing_index)

text \<open>Where a browser timer can come from: the body of the \<^verbatim>\<open>try\<close> statement only.\<close>

lemma serve_browser:
  "BrowserTimer u \<in> set (fst (serve e a)) \<Longrightarrow> u = ''http://127.0.0.1:'' @ str_int (port a)"
  by (auto simp: serve_def Let_def split: option.splits if_splits)

lemma serve_browser_scheduled:
  "server_bind e (host a) (port a) = None \<Longrightarrow> \<not> no_browser a \<Longrightarrow>
     BrowserTimer (''http://127.0.0.1:'' @ str_int (port a)) \<in> set (fst (serve e a))"
  by (auto simp: serve_def Let_def split: option.splits)

lemma handle_raised_no_browser: "BrowserTimer u \<notin> set (fst (handle_raised a r))"
  by (cases "(a, r)" rule: handle_raised.cases) auto

lemma watcher_no_browser: "BrowserTimer u \<notin> set (fst (start_file_watcher e d))"
  by (auto simp: start_file_watcher_def split: option.splits)

lemma main_browser:
  "BrowserTimer u \<in> set (fst (main e a)) \<Longrightarrow> BrowserTimer u \<in> set (fst (serve e a))"
  using handle_raised_no_browser[of u a] watcher_no_browser[of u e "''.''"]
  by (auto simp: main_def check_dependencies_eq Let_def split_beta
           split: option.splits if_splits exn.splits)

lemma main_browser_scheduled:
  "path_exists e (script_dir e) ''index.html'' \<Longrightarrow> BrowserTimer u \<in> set (fst (serve e a))
     \<Longrightarrow> BrowserTimer u \<in> set (fst (main e a))"
  by (auto simp: main_def check_dependencies_eq Let_def split_beta
           split: option.splits if_splits exn.splits)

text \<open>
  C10. Any browser timer a run starts is for \<^verbatim>\<open>http://127.0.0.1:<port>\<close>, whatever the
  host; and a run that gets past the imports, the check for \<^verbatim>\<open>index.html\<close> and the
  bind, with the browser not switched off, starts one.
\<close>

theorem browser_url_is_loopback:
  "(BrowserTimer url \<in> set (fst (run_script e a))
      \<longrightarrow> url = ''http://127.0.0.1:'' @ str_int (port a))
   \<and> (watchdog_installed e \<and> path_exists e (script_dir e) ''index.html''
        \<and> server_bind e (host a) (port a) = None \<and> \<not> no_browser a
      \<longrightarrow> BrowserTimer (''http://127.0.0.1:'' @ str_int (port a)) \<in> set (fst (run_script e a)))"
proof (intro conjI impI)
  assume "BrowserTimer url \<in> set (fst (run_script e a))"
  then have "BrowserTimer url \<in> set (fst (main e a))"
    by (simp add: run_script_def split: if_splits)
  then show "url = ''http://127.0.0.1:'' @ str_int (port a)"
    by (intro serve_browser main_browser)
next
  assume h: "watchdog_installed e \<and> path_exists e (script_dir e) ''index.html''
        \<and> server_bind e (host a) (port a) = None \<and> \<not> no_browser a"
  then have "BrowserTimer (''http://127.0.0.1:'' @ str_int (port a)) \<in> set (fst (main e a))"
    by (intro main_browser_scheduled serve_browser_scheduled) simp_all
  with h show "BrowserTimer (''http://127.0.0.1:'' @ str_int (port a))
                 \<in> set (fst (run_script e a))"
    by (simp add: run_script_def)
qed

theorem browser_url_is_loopback_witness:
  "BrowserTimer ''http://127.0.0.1:3000''
     \<in> set (fst (run_script good_env (default_args\<lparr>host := ''0.0.0.0'', port := 3000\<rparr>)))"
  using browser_url_is_loopback[where e = good_env
      and a = "default_args\<lparr>host := ''0.0.0.0'', port := 3000\<rparr>"]
  by (simp add: good_env_def default_args_def str_int_def str_nat.simps)

text \<open>
  What the \<^verbatim>\<open>except OSError\<close> clause does with a failed bind: the exit code is 1 for
  every error number; the next port is suggested when the number is 48, the error is
  printed as it is otherwise.
\<close>

lemma bind_oserror_exit_code:
  "watchdog_installed e \<Longrightarrow> path_exists e (script_dir e) ''index.html''
     \<Longrightarrow> server_bind e (host a) (port a) = Some (OSError n m)
     \<Longrightarrow> snd (run_script e a) = Some 1"
  by (simp add: run_script_def main_def check_dependencies_eq serve_def Let_def split_beta)

lemma bind_oserror_printed:
  "watchdog_installed e \<Longrightarrow> path_exists e (script_dir e) ''index.html''
     \<Longrightarrow> server_bind e (host a) (port a) = Some (OSError n m)
     \<Longrightarrow> (if n = 48 then Print (''   python serve.py -p '' @ str_int (port a + 1))
          else Print (cross_mark @ '' Server error: '' @ str_exn (OSError n m)))
         \<in> set (fst (run_script e a))"
  by (simp add: run_script_def main_def check_dependencies_eq serve_def Let_def split_beta)

text \<open>
  C4 on Linux, where "address already in use" is error 98: with port 8000 taken the run
  ends with exit code 1, but it prints the error as it is and suggests no port.
\<close>

theorem port_taken_on_linux:
  "run_script (port_taken_env Linux) default_args =
     ([Chdir ''/srv/atlas'', ObserverSchedule ''.'', ObserverStart,
       Print (eyes @ '' File watcher started - changes will be detected''),
       Bind ''127.0.0.1'' 8000,
       Print (cross_mark @ '' Server error: [Errno 98] Address already in use''),
       ObserverStop, ObserverJoin], Some 1)"
  by (simp add: run_script_def port_taken_env_def good_env_def default_args_def main_def
      check_dependencies_eq start_file_watcher_def serve_def str_int_def str_nat.simps)

text \<open>The same run on macOS, where the error is 48: the next port is suggested.\<close>

lemma port_taken_on_darwin:
  "run_script (port_taken_env Darwin) default_args =
     ([Chdir ''/srv/atlas'', ObserverSchedule ''.'', ObserverStart,
       Print (eyes @ '' File watcher started - changes will be detected''),
       Bind ''127.0.0.1'' 8000,
       Print (cross_mark @ '' Port 8000 is already in use. Try a different port:''),
       Print ''   python serve.py -p 8001'',
       ObserverStop, ObserverJoin], Some 1)"
  by (simp add: run_script_def port_taken_env_def good_env_def default_args_def main_def
      check_dependencies_eq start_file_watcher_def serve_def str_int_def str_nat.simps)

text \<open>
  A failure of the observer's \<^verbatim>\<open>schedule\<close> or \<^verbatim>\<open>start\<close> is caught: the run goes on to
  bind the server.
\<close>

lemma serve_binds: "Bind (host a) (port a) \<in> set (fst (serve e a))"
  by (simp add: serve_def Let_def split: option.splits)

lemma serve_no_stop: "ObserverStop \<notin> set (fst (serve e a))"
  by (simp add: serve_def Let_def split: option.splits)

lemma handle_raised_no_stop: "ObserverStop \<notin> set (fst (handle_raised a r))"
  by (cases "(a, r)" rule: handle_raised.cases) auto

lemma watcher_failure_not_fatal:
  assumes "watchdog_installed e" and "path_exists e (script_dir e) ''index.html''"
    and "observer_schedule e = Some x \<or> observer_start e = Some x"
  shows "Bind (host a) (port a) \<in> set (fst (run_script e a))
         \<and> ObserverStop \<notin> set (fst (run_script e a))"
proof -
  have w: "snd (start_file_watcher e ''.'') \<noteq> None"
    "ObserverStop \<notin> set (fst (start_file_watcher e ''.''))"
    using assms(3) by (auto simp: start_file_watcher_def split: option.splits)
  show ?thesis
    using assms(1,2) w serve_binds[of a e] serve_no_stop[of e a] handle_raised_no_stop[of a]
    by (auto simp: run_script_def main_def check_dependencies_eq Let_def split_beta
             split: option.splits exn.splits)
qed

text \<open>
  C5 with the \<^verbatim>\<open>watchdog\<close> package missing: the import at the top of the module fails
  before \<^verbatim>\<open>main\<close> is entered; the run ends there with exit code 1, no warning is
  printed and no server is started.
\<close>

theorem missing_watchdog_ends_run:
  "run_script (good_env\<lparr>watchdog_installed := False\<rparr>) default_args =
     ([Traceback (ImportError (''No module named '' @ [CHR 0x27] @ ''watchdog'' @ [CHR 0x27]))],
      Some 1)"
  by (simp add: run_script_def good_env_def)

end
